theory Spec2Isabelle
  imports Complex_Main
begin

section \<open>Vectors, bounding boxes and geometry\<close>

text \<open>
  The viewer of \<^verbatim>\<open>src/app/components/STLViewer.tsx\<close> is a single effect hook around a
  rendering library. JavaScript numbers are modelled as real numbers: every statement below
  is about the formulas the code evaluates, not about their rounding to doubles.

  A vector has the three coordinates \<^verbatim>\<open>x\<close>, \<^verbatim>\<open>y\<close>, \<^verbatim>\<open>z\<close> (prefixed here, since a record field
  is a constant of the theory).
\<close>

record Vector3 =
  vx :: real
  vy :: real
  vz :: real

definition vec3 :: "real \<Rightarrow> real \<Rightarrow> real \<Rightarrow> Vector3" where
  "vec3 a b c = \<lparr>vx = a, vy = b, vz = c\<rparr>"

definition origin :: Vector3 where
  "origin = vec3 0 0 0"

definition addVectors :: "Vector3 \<Rightarrow> Vector3 \<Rightarrow> Vector3" where
  "addVectors a b = vec3 (vx a + vx b) (vy a + vy b) (vz a + vz b)"

definition subVectors :: "Vector3 \<Rightarrow> Vector3 \<Rightarrow> Vector3" where
  "subVectors a b = vec3 (vx a - vx b) (vy a - vy b) (vz a - vz b)"

definition multiplyScalar :: "Vector3 \<Rightarrow> real \<Rightarrow> Vector3" where
  "multiplyScalar a s = vec3 (vx a * s) (vy a * s) (vz a * s)"

definition vmin :: "Vector3 \<Rightarrow> Vector3 \<Rightarrow> Vector3" where
  "vmin a b = vec3 (min (vx a) (vx b)) (min (vy a) (vy b)) (min (vz a) (vz b))"

definition vmax :: "Vector3 \<Rightarrow> Vector3 \<Rightarrow> Vector3" where
  "vmax a b = vec3 (max (vx a) (vx b)) (max (vy a) (vy b)) (max (vz a) (vz b))"

text \<open>
  The geometry the loader hands to the success callback: the vertices of the triangle
  soup, in file order.
\<close>

type_synonym BufferGeometry = "Vector3 list"

text \<open>
  Modelled from the spec: the rendering library's axis-aligned bounding box, which is not
  under \<^verbatim>\<open>src/\<close> (\<^verbatim>\<open>computeBoundingBox\<close>, \<^verbatim>\<open>getCenter\<close>, \<^verbatim>\<open>getSize\<close>). The spec calls it
  ``the smallest axis-aligned box containing all mesh vertices'', its center the point the
  mesh is translated from, and \<^verbatim>\<open>maxDim\<close> its largest dimension. A box over no vertex is
  empty; the library gives an empty box the center and the size zero.
\<close>

datatype Box3 = EmptyBox | Box Vector3 Vector3

fun expandByPoint :: "Box3 \<Rightarrow> Vector3 \<Rightarrow> Box3" where
  "expandByPoint EmptyBox p = Box p p"
| "expandByPoint (Box lo hi) p = Box (vmin lo p) (vmax hi p)"

definition computeBoundingBox :: "BufferGeometry \<Rightarrow> Box3" where
  "computeBoundingBox g = foldl expandByPoint EmptyBox g"

fun isEmpty :: "Box3 \<Rightarrow> bool" where
  "isEmpty EmptyBox = True"
| "isEmpty (Box lo hi) = (vx hi < vx lo \<or> vy hi < vy lo \<or> vz hi < vz lo)"

fun getCenter :: "Box3 \<Rightarrow> Vector3" where
  "getCenter EmptyBox = vec3 0 0 0"
| "getCenter (Box lo hi) =
     (if isEmpty (Box lo hi) then vec3 0 0 0 else multiplyScalar (addVectors lo hi) 0.5)"

fun getSize :: "Box3 \<Rightarrow> Vector3" where
  "getSize EmptyBox = vec3 0 0 0"
| "getSize (Box lo hi) =
     (if isEmpty (Box lo hi) then vec3 0 0 0 else subVectors hi lo)"

section \<open>Scene objects and the camera\<close>

record MeshPhongMaterial =
  color :: string
  specular :: nat
  shininess :: real

text \<open>
  What the scene holds: the lights of the rig (colour, intensity, position) and the loaded
  mesh (geometry, material, position).
\<close>

datatype Object3D =
    AmbientLight nat real
  | DirectionalLight nat real Vector3
  | Mesh BufferGeometry MeshPhongMaterial Vector3

fun isMesh :: "Object3D \<Rightarrow> bool" where
  "isMesh (Mesh g m p) = True"
| "isMesh (AmbientLight c i) = False"
| "isMesh (DirectionalLight c i p) = False"

text \<open>
  The perspective camera: field of view in degrees, aspect ratio, clipping planes and
  position. The aspect ratio is \<^verbatim>\<open>width / height\<close>; with \<^verbatim>\<open>height = 0\<close> JavaScript yields
  an infinity or NaN, which is \<open>None\<close> here.
\<close>

record PerspectiveCamera =
  fov :: real
  aspect :: "real option"
  near :: real
  far :: real
  position :: Vector3

definition newPerspectiveCamera :: "real \<Rightarrow> real option \<Rightarrow> real \<Rightarrow> real \<Rightarrow> PerspectiveCamera" where
  "newPerspectiveCamera f a n fa = \<lparr>fov = f, aspect = a, near = n, far = fa, position = vec3 0 0 0\<rparr>"

section \<open>The success callback: centring and camera fit\<close>

text \<open>
  Lines 86 to 99: the material in the model colour, the mesh, and its position, the
  negated center of the geometry's bounding box.
\<close>

definition centerOf :: "BufferGeometry \<Rightarrow> Vector3" where
  "centerOf g = getCenter (computeBoundingBox g)"

definition newMesh :: "string \<Rightarrow> BufferGeometry \<Rightarrow> Object3D" where
  "newMesh modelColor g =
     (let material = \<lparr>color = modelColor, specular = 0x111111, shininess = 200\<rparr>;
          center = centerOf g
      in Mesh g material (vec3 (- vx center) (- vy center) (- vz center)))"

fun meshPosition :: "Object3D \<Rightarrow> Vector3" where
  "meshPosition (Mesh g m p) = p"
| "meshPosition (AmbientLight c i) = vec3 0 0 0"
| "meshPosition (DirectionalLight c i p) = p"

text \<open>Lines 102 to 104: the largest dimension of the bounding box.\<close>

definition maxDimOf :: "BufferGeometry \<Rightarrow> real" where
  "maxDimOf g = (let size = getSize (computeBoundingBox g) in max (max (vx size) (vy size)) (vz size))"

text \<open>
  Lines 105 to 125, as a function of \<^verbatim>\<open>maxDim\<close> and the camera: the field of view in
  radians, the fit distance \<^verbatim>\<open>cameraZ\<close>, the camera's z position with its margin, and the two
  clipping planes. (Where \<open>sin (fov / 2) = 0\<close> JavaScript divides to an infinity; the viewer's
  camera always has \<open>fov = 75\<close>, and the theorems below are about that camera.)
\<close>

definition adjustCamera :: "real \<Rightarrow> PerspectiveCamera \<Rightarrow> PerspectiveCamera" where
  "adjustCamera maxDim cam =
     (let fovr = fov cam * (pi / 180);
          cameraZ = \<bar>maxDim / sin (fovr / 2)\<bar>;
          nearPlaneFactor = 0.01;
          nearPlane = max (maxDim * nearPlaneFactor) 0.1;
          cameraToFarPoint = cameraZ + maxDim / 2;
          farPlaneFactor = 2;
          farPlane = cameraToFarPoint * farPlaneFactor
      in cam\<lparr>position := (position cam)\<lparr>vz := cameraZ * 1.5\<rparr>, near := nearPlane, far := farPlane\<rparr>)"

definition fitCamera :: "BufferGeometry \<Rightarrow> PerspectiveCamera \<Rightarrow> PerspectiveCamera" where
  "fitCamera g cam = adjustCamera (maxDimOf g) cam"

text \<open>The half field of view of the viewer's camera, in radians: 37.5 degrees.\<close>

definition halfFov :: real where
  "halfFov = 75 * (pi / 180) / 2"

section \<open>The component: props, refs, state and the objects of one effect run\<close>

record STLViewerProps =
  url :: string
  width :: real
  height :: real
  backgroundColor :: string
  modelColor :: string

text \<open>The defaults of the destructured props (lines 16 to 22).\<close>

definition defaultProps :: "string \<Rightarrow> STLViewerProps" where
  "defaultProps u =
     \<lparr>url = u, width = 400, height = 400, backgroundColor = ''#f5f5f5'', modelColor = ''#00bcd4''\<rparr>"

record WebGLRenderer =
  sizeOf :: "real \<times> real"
  pixelRatio :: real
  rendererDisposed :: bool
  rendered :: nat

record OrbitControls =
  enableDamping :: bool
  dampingFactor :: real
  enableZoom :: bool
  controlsDisposed :: bool

text \<open>
  Each run of the effect creates a scene, a camera, a renderer with its canvas, and
  controls; its callbacks (success, progress, error, \<^verbatim>\<open>animate\<close>, the cleanup) are closures
  over these objects and over the props of that run. A run is named by a number, which is
  also the identity of its renderer, of its controls and of the renderer's canvas
  (\<^verbatim>\<open>domElement\<close>). The objects live in a store, so that a callback that fires late still
  finds the objects it closed over. \<open>loadPending\<close> is the loader's side: the request of
  the run has not completed yet.
\<close>

record Env =
  props :: STLViewerProps
  scene :: "Object3D list"
  background :: string
  camera :: PerspectiveCamera
  renderer :: WebGLRenderer
  controls :: OrbitControls
  loadPending :: bool

datatype ConsoleEntry = LogProgress "real option" | LogError string

text \<open>
  The component: the container behind \<^verbatim>\<open>mountRef\<close> (its canvas children, \<open>None\<close> while the
  ref is \<^verbatim>\<open>null\<close>), the three refs, the two state variables, the store of runs, the animation
  frames the browser has pending (handle and run), and the cleanup closure React holds for
  the effect (the run it belongs to).
\<close>

record Viewer =
  mountRef :: "nat list option"
  rendererRef :: "nat option"
  controlsRef :: "nat option"
  animationFrameRef :: "nat option"
  loading :: bool
  error :: "string option"
  envs :: "nat \<rightharpoonup> Env"
  nextEnv :: nat
  frames :: "(nat \<times> nat) list"
  nextFrame :: nat
  cleanup :: "nat option"
  devicePixelRatio :: real
  console :: "ConsoleEntry list"

definition initialViewer :: Viewer where
  "initialViewer =
     \<lparr>mountRef = Some [], rendererRef = None, controlsRef = None, animationFrameRef = None,
      loading = True, error = None, envs = Map.empty, nextEnv = 0, frames = [], nextFrame = 1,
      cleanup = None, devicePixelRatio = 1, console = []\<rparr>"

section \<open>The browser: DOM children and animation frames\<close>

datatype DOMException = NotFoundError

text \<open>\<^verbatim>\<open>removeChild\<close> throws when the node is not a child of the container.\<close>

definition removeChild :: "nat \<Rightarrow> nat list \<Rightarrow> DOMException + nat list" where
  "removeChild c ch = (if c \<in> set ch then Inr (remove1 c ch) else Inl NotFoundError)"

definition appendChild :: "nat \<Rightarrow> nat list \<Rightarrow> nat list" where
  "appendChild c ch = remove1 c ch @ [c]"

definition cancelAnimationFrame :: "nat \<Rightarrow> Viewer \<Rightarrow> Viewer" where
  "cancelAnimationFrame h s = s\<lparr>frames := filter (\<lambda>f. fst f \<noteq> h) (frames s)\<rparr>"

text \<open>\<^verbatim>\<open>requestAnimationFrame\<close> of the \<^verbatim>\<open>animate\<close> closure of run \<open>k\<close>: the new handle.\<close>

definition requestAnimationFrame :: "nat \<Rightarrow> Viewer \<Rightarrow> nat \<times> Viewer" where
  "requestAnimationFrame k s =
     (nextFrame s, s\<lparr>frames := frames s @ [(nextFrame s, k)], nextFrame := nextFrame s + 1\<rparr>)"

section \<open>The effect\<close>

definition updateEnv :: "nat \<Rightarrow> (Env \<Rightarrow> Env) \<Rightarrow> Viewer \<Rightarrow> Viewer" where
  "updateEnv k f s = (case envs s k of None \<Rightarrow> s | Some e \<Rightarrow> s\<lparr>envs := (envs s)(k \<mapsto> f e)\<rparr>)"

definition disposeRenderer :: "Env \<Rightarrow> Env" where
  "disposeRenderer e = e\<lparr>renderer := (renderer e)\<lparr>rendererDisposed := True\<rparr>\<rparr>"

definition disposeControls :: "Env \<Rightarrow> Env" where
  "disposeControls e = e\<lparr>controls := (controls e)\<lparr>controlsDisposed := True\<rparr>\<rparr>"

definition render :: "Env \<Rightarrow> Env" where
  "render e = e\<lparr>renderer := (renderer e)\<lparr>rendered := rendered (renderer e) + 1\<rparr>\<rparr>"

text \<open>
  Lines 143 to 149, the \<^verbatim>\<open>animate\<close> closure of run \<open>k\<close>: update the controls behind
  \<^verbatim>\<open>controlsRef\<close> (what the update does to the camera depends on the user's input and is
  left out), render the run's scene, and schedule the next frame.
\<close>

definition animate :: "nat \<Rightarrow> Viewer \<Rightarrow> Viewer" where
  "animate k s =
     (let s1 = updateEnv k render s;
          (h, s2) = requestAnimationFrame k s1
      in s2\<lparr>animationFrameRef := Some h\<rparr>)"

definition lights :: "Object3D list" where
  "lights =
     [AmbientLight 0x404040 1.5,
      DirectionalLight 0xffffff 0.8 (vec3 1 1 1),
      DirectionalLight 0xffffff 0.5 (vec3 (-1) (-1) (-1))]"

text \<open>Lines 46 to 83: the objects a run creates, before the renderer's canvas is attached.\<close>

definition newEnv :: "STLViewerProps \<Rightarrow> real \<Rightarrow> Env" where
  "newEnv p dpr =
     \<lparr>props = p,
      scene = lights,
      background = backgroundColor p,
      camera = (newPerspectiveCamera 75
                  (if height p = 0 then None else Some (width p / height p)) 0.1 1000)
                 \<lparr>position := vec3 0 0 5\<rparr>,
      renderer = \<lparr>sizeOf = (width p, height p), pixelRatio = dpr,
                  rendererDisposed = False, rendered = 0\<rparr>,
      controls = \<lparr>enableDamping = True, dampingFactor = 0.25, enableZoom = True,
                  controlsDisposed = False\<rparr>,
      loadPending = True\<rparr>"

text \<open>
  Lines 35 to 39: a renderer left in \<^verbatim>\<open>rendererRef\<close> has its canvas removed from the
  container, with no check that it is a child, and is disposed.
\<close>

definition clearExisting :: "nat list \<Rightarrow> Viewer \<Rightarrow> DOMException + Viewer" where
  "clearExisting ch s =
     (case rendererRef s of
        None \<Rightarrow> Inr s
      | Some r \<Rightarrow>
          (case removeChild r ch of
             Inl e \<Rightarrow> Inl e
           | Inr ch' \<Rightarrow> Inr (updateEnv r disposeRenderer (s\<lparr>mountRef := Some ch'\<rparr>))))"

text \<open>
  Lines 32 to 152, the body of the effect. It returns at once when the container is not
  there (and then registers no cleanup); otherwise it runs to the first call of
  \<^verbatim>\<open>animate\<close> and hands its cleanup closure to React.
\<close>

definition initialize :: "STLViewerProps \<Rightarrow> Viewer \<Rightarrow> DOMException + Viewer" where
  "initialize p s =
     (case mountRef s of
        None \<Rightarrow> Inr s
      | Some ch \<Rightarrow>
          (case clearExisting ch s of
             Inl e \<Rightarrow> Inl e
           | Inr s1 \<Rightarrow>
               (let s2 = (case animationFrameRef s1 of
                            None \<Rightarrow> s1
                          | Some h \<Rightarrow> cancelAnimationFrame h s1);
                    k = nextEnv s2;
                    s3 = s2\<lparr>envs := (envs s2)(k \<mapsto> newEnv p (devicePixelRatio s2)),
                            nextEnv := k + 1,
                            rendererRef := Some k,
                            mountRef := map_option (appendChild k) (mountRef s2),
                            controlsRef := Some k\<rparr>
                in Inr ((animate k s3)\<lparr>cleanup := Some k\<rparr>))))"

text \<open>
  Lines 154 to 179, the cleanup closure of run \<open>k\<close>. The frame handle is cancelled and
  kept; the controls and the renderer are disposed and their refs set to \<^verbatim>\<open>null\<close>; the canvas
  is removed only when the container is there and contains it.
\<close>

definition teardown :: "nat \<Rightarrow> Viewer \<Rightarrow> DOMException + Viewer" where
  "teardown k s =
     (let s1 = (case animationFrameRef s of
                  None \<Rightarrow> s
                | Some h \<Rightarrow> cancelAnimationFrame h s);
          s2 = updateEnv k (\<lambda>e. e\<lparr>scene := []\<rparr>) s1;
          s3 = (case controlsRef s2 of
                  None \<Rightarrow> s2
                | Some c \<Rightarrow> (updateEnv c disposeControls s2)\<lparr>controlsRef := None\<rparr>)
      in case rendererRef s3 of
           None \<Rightarrow> Inr s3
         | Some r \<Rightarrow>
             (let s4 = updateEnv r disposeRenderer s3
              in case mountRef s4 of
                   None \<Rightarrow> Inr (s4\<lparr>rendererRef := None\<rparr>)
                 | Some ch \<Rightarrow>
                     if r \<in> set ch
                     then (case removeChild r ch of
                             Inl e \<Rightarrow> Inl e
                           | Inr ch' \<Rightarrow> Inr (s4\<lparr>mountRef := Some ch', rendererRef := None\<rparr>))
                     else Inr (s4\<lparr>rendererRef := None\<rparr>)))"

section \<open>The load callbacks\<close>

text \<open>
  Lines 85 to 129, the success callback of run \<open>k\<close>: it adds the centred mesh to the run's
  scene, fits the run's camera and clears the loading state. It reads no ref and makes no
  check that its run is still the mounted one.
\<close>

definition onLoad :: "nat \<Rightarrow> BufferGeometry \<Rightarrow> Viewer \<Rightarrow> Viewer" where
  "onLoad k geometry s =
     (updateEnv k
        (\<lambda>e. e\<lparr>camera := fitCamera geometry (camera e),
               scene := scene e @ [newMesh (modelColor (props e)) geometry],
               loadPending := False\<rparr>) s)
     \<lparr>loading := False\<rparr>"

text \<open>Lines 131 to 133, the progress callback: one line on the console.\<close>

definition onProgress :: "real \<Rightarrow> real \<Rightarrow> Viewer \<Rightarrow> Viewer" where
  "onProgress xhrLoaded xhrTotal s =
     s\<lparr>console := console s @
        [LogProgress (if xhrTotal = 0 then None else Some ((xhrLoaded / xhrTotal) * 100))]\<rparr>"

text \<open>Lines 135 to 139, the error callback of run \<open>k\<close>.\<close>

definition onError :: "nat \<Rightarrow> string \<Rightarrow> Viewer \<Rightarrow> Viewer" where
  "onError k err s =
     (updateEnv k (\<lambda>e. e\<lparr>loadPending := False\<rparr>) s)
     \<lparr>console := console s @ [LogError err],
      error := Some ''Failed to load the 3D model.'',
      loading := False\<rparr>"

section \<open>The life of the component as a trace of events\<close>

text \<open>
  What can happen to a mounted viewer: React runs the effect (at mount, and after the
  cleanup when a dependency has changed), React runs the cleanup it holds, the loader
  completes or reports progress on the request of some run, the browser fires a pending
  animation frame.
\<close>

datatype Event =
    Init STLViewerProps
  | Teardown
  | LoadSuccess nat BufferGeometry
  | LoadProgress nat real real
  | LoadError nat string
  | Frame nat

definition pendingLoad :: "nat \<Rightarrow> Viewer \<Rightarrow> bool" where
  "pendingLoad k s = (case envs s k of None \<Rightarrow> False | Some e \<Rightarrow> loadPending e)"

text \<open>
  The discipline of the environment: React runs the effect only when it holds no cleanup
  of a previous run, and the cleanup only when it holds one; the loader calls back only on
  a request that has not completed; the browser fires only a frame that is pending.
\<close>

fun enabled :: "Event \<Rightarrow> Viewer \<Rightarrow> bool" where
  "enabled (Init p) s = (cleanup s = None)"
| "enabled Teardown s = (cleanup s \<noteq> None)"
| "enabled (LoadSuccess k g) s = pendingLoad k s"
| "enabled (LoadProgress k l t) s = pendingLoad k s"
| "enabled (LoadError k err) s = pendingLoad k s"
| "enabled (Frame h) s = (map_of (frames s) h \<noteq> None)"

fun step :: "Event \<Rightarrow> Viewer \<Rightarrow> DOMException + Viewer" where
  "step (Init p) s = initialize p s"
| "step Teardown s =
     (case cleanup s of
        None \<Rightarrow> Inr s
      | Some k \<Rightarrow> (case teardown k s of Inl e \<Rightarrow> Inl e | Inr s' \<Rightarrow> Inr (s'\<lparr>cleanup := None\<rparr>)))"
| "step (LoadSuccess k g) s = Inr (onLoad k g s)"
| "step (LoadProgress k l t) s = Inr (onProgress l t s)"
| "step (LoadError k err) s = Inr (onError k err s)"
| "step (Frame h) s =
     (case map_of (frames s) h of
        None \<Rightarrow> Inr s
      | Some k \<Rightarrow> Inr (animate k (cancelAnimationFrame h s)))"

text \<open>A trace runs while its events are enabled and nothing is thrown.\<close>

fun exec :: "Event list \<Rightarrow> Viewer \<Rightarrow> Viewer option" where
  "exec [] s = Some s"
| "exec (ev # evs) s =
     (if enabled ev s
      then (case step ev s of Inl e \<Rightarrow> None | Inr s' \<Rightarrow> exec evs s')
      else None)"

section \<open>Notions used in the statements\<close>

text \<open>
  The cube of the spec's example: size 2 in each direction, centred at the origin, by its
  eight corners.
\<close>

definition cube :: BufferGeometry where
  "cube =
     [vec3 (-1) (-1) (-1), vec3 1 (-1) (-1), vec3 (-1) 1 (-1), vec3 1 1 (-1),
      vec3 (-1) (-1) 1, vec3 1 (-1) 1, vec3 (-1) 1 1, vec3 1 1 1]"

text \<open>``Approximately'', for a value given with two decimals: within one hundredth.\<close>

definition approx :: "real \<Rightarrow> real \<Rightarrow> bool" where
  "approx a b = (\<bar>a - b\<bar> \<le> 0.01)"

text \<open>The vertices of a mesh as the scene shows them: offset by the mesh's position.\<close>

definition translated :: "Vector3 \<Rightarrow> BufferGeometry \<Rightarrow> BufferGeometry" where
  "translated p g = map (\<lambda>v. addVectors v p) g"

fun translateBox :: "Vector3 \<Rightarrow> Box3 \<Rightarrow> Box3" where
  "translateBox p EmptyBox = EmptyBox"
| "translateBox p (Box lo hi) = Box (addVectors lo p) (addVectors hi p)"

text \<open>The scene of run \<open>k\<close>, empty for a run that does not exist.\<close>

definition sceneOf :: "nat \<Rightarrow> Viewer \<Rightarrow> Object3D list" where
  "sceneOf k s = (case envs s k of None \<Rightarrow> [] | Some e \<Rightarrow> scene e)"

text \<open>
  The invariant of the traces. Between a cleanup and the next run of the effect the viewer
  is idle: no ref but the frame handle is set, the container has no canvas and no frame is
  pending. While run \<open>k\<close> is mounted, the refs and the container hold its renderer, its
  controls and its canvas, exactly one frame is pending, for \<open>k\<close>, and its scene is the
  three lights for as long as its load is pending. Every run that was ever created has a
  camera with a field of view of 75 degrees, and no mesh in its scene while its load is
  pending.
\<close>

definition envOk :: "Env \<Rightarrow> bool" where
  "envOk e = (fov (camera e) = 75 \<and> (if loadPending e then filter isMesh (scene e) = [] else True))"

definition envLive :: "Env \<Rightarrow> bool" where
  "envLive e = (if loadPending e then scene e = lights else True)"

definition envsOk :: "Viewer \<Rightarrow> bool" where
  "envsOk s = (\<forall>k e. envs s k = Some e \<longrightarrow> envOk e)"

definition idle :: "Viewer \<Rightarrow> bool" where
  "idle s = (cleanup s = None \<and> rendererRef s = None \<and> controlsRef s = None \<and>
     mountRef s = Some [] \<and> frames s = [])"

definition running :: "nat \<Rightarrow> Viewer \<Rightarrow> bool" where
  "running k s = (cleanup s = Some k \<and> rendererRef s = Some k \<and> controlsRef s = Some k \<and>
     mountRef s = Some [k] \<and> (\<exists>h. frames s = [(h, k)] \<and> animationFrameRef s = Some h) \<and>
     (\<exists>e. envs s k = Some e \<and> envLive e))"

definition wf :: "Viewer \<Rightarrow> bool" where
  "wf s = ((idle s \<or> (\<exists>k. running k s)) \<and> envsOk s)"

text \<open>
  The state a trace leads to from the freshly mounted component (the initial state when
  the trace does not run).
\<close>

definition stateAfter :: "Event list \<Rightarrow> Viewer" where
  "stateAfter evs = (case exec evs initialViewer of None \<Rightarrow> initialViewer | Some s \<Rightarrow> s)"

text \<open>
  The props the demo page \<^verbatim>\<open>src/app/page.tsx\<close> passes: its model, its colours, and the
  size of the window, which it sets in an effect of its own right after the first render,
  so that the viewer is initialised twice on every visit.
\<close>

definition demoProps :: "real \<Rightarrow> real \<Rightarrow> STLViewerProps" where
  "demoProps w h =
     \<lparr>url = ''/models/dcenter.stl'', width = w, height = h,
      backgroundColor = ''#f5f5f5'', modelColor = ''#ffffff''\<rparr>"

text \<open>
  A trace of the demo page: the viewer has been initialised, torn down when the window
  size arrived, and initialised again, and both requests, for the same url, are still in
  flight.
\<close>

definition staleTrace :: "Event list" where
  "staleTrace = [Init (demoProps 600 400), Teardown, Init (demoProps 1280 720)]"

text \<open>
  A host page that changes the url while the first request is in flight: the two runs then
  have requests of their own, for different files, and the later one can succeed before the
  earlier one fails. (Where the url stays the same, as on the demo page, the loader answers
  the pending requests for it from one request, with one outcome for both runs, the earlier
  run's callback first.)
\<close>

definition urlChange :: "Event list" where
  "urlChange =
     [Init (demoProps 600 400), Teardown,
      Init ((demoProps 600 400)\<lparr>url := ''/models/other.stl''\<rparr>)]"

definition lateFailure :: "Event list" where
  "lateFailure = urlChange @ [LoadSuccess 1 cube, LoadError 0 ''404'']"

text \<open>
  Two more meshes: a part of size 0.01 in each direction (the cube, scaled), and three
  vertices away from the origin, whose bounding box has its center at (11, 2, -1).
\<close>

definition tinyPart :: BufferGeometry where
  "tinyPart = map (\<lambda>v. multiplyScalar v 0.005) cube"

definition offCentre :: BufferGeometry where
  "offCentre = [vec3 10 0 (-2), vec3 12 4 0, vec3 11 1 (-1)]"

section \<open>The sine of the half field of view\<close>


lemma sqrt2_bounds: "1.414 < sqrt 2" "sqrt 2 < 1.415"
  by (rule real_less_rsqrt, simp add: power2_eq_square) (rule real_less_lsqrt, simp_all add: power2_eq_square)

lemma sqrt3_bounds: "1.732 < sqrt 3" "sqrt 3 < 1.733"
  by (rule real_less_rsqrt, simp add: power2_eq_square) (rule real_less_lsqrt, simp_all add: power2_eq_square)

lemma halfFov_eq: "halfFov = 5 * pi / 24"
  by (simp add: halfFov_def)

lemma cos_75: "cos (2 * halfFov) = sqrt 2 / 2 * (sqrt 3 / 2) - sqrt 2 / 2 * (1 / 2)"
proof -
  have "2 * halfFov = pi / 4 + pi / 6" by (simp add: halfFov_def)
  then show ?thesis
    by (simp only: cos_add cos_45 sin_45 cos_30 sin_30)
qed

lemma sin_halfFov_pos: "0 < sin halfFov"
proof -
  have "0 < halfFov" "halfFov < pi" using pi_gt_zero by (simp_all add: halfFov_def)
  then show ?thesis by (rule sin_gt_zero)
qed

lemma sin_sq: "(sin halfFov)\<^sup>2 = (1 - cos (2 * halfFov)) / 2"
  by (simp add: cos_double_sin)

lemma cos75_bounds: "0.2587 < cos (2 * halfFov)" "cos (2 * halfFov) < 0.2594"
proof -
  have e: "cos (2 * halfFov) = sqrt 2 * (sqrt 3 - 1) / 4"
    unfolding cos_75 by (simp add: field_simps)
  have a: "1.414 * 0.732 < sqrt 2 * (sqrt 3 - 1)"
    by (rule mult_strict_mono) (use sqrt2_bounds sqrt3_bounds in simp_all)
  have b: "sqrt 2 * (sqrt 3 - 1) < 1.415 * 0.733"
    by (rule mult_strict_mono) (use sqrt2_bounds sqrt3_bounds in simp_all)
  show "0.2587 < cos (2 * halfFov)" using a unfolding e by simp
  show "cos (2 * halfFov) < 0.2594" using b unfolding e by simp
qed

lemma sin_halfFov_bounds: "0.6085 < sin halfFov" "sin halfFov < 0.6089"
proof -
  have sq: "(0.6085::real)\<^sup>2 = 0.37027225" "(0.6089::real)\<^sup>2 = 0.37075921"
    by (simp_all add: power2_eq_square)
  have lo: "(0.6085::real)\<^sup>2 < (sin halfFov)\<^sup>2"
    unfolding sq sin_sq using cos75_bounds by (simp; linarith)
  have hi: "(sin halfFov)\<^sup>2 < (0.6089::real)\<^sup>2"
    unfolding sq sin_sq using cos75_bounds by (simp; linarith)
  show "0.6085 < sin halfFov"
    using lo sin_halfFov_pos by (intro power2_less_imp_less[of "0.6085" "sin halfFov"]) simp_all
  show "sin halfFov < 0.6089"
    using hi by (intro power2_less_imp_less[of "sin halfFov" "0.6089"]) simp_all
qed

section \<open>The invariant of the traces\<close>


lemma updateEnv_fields:
  "mountRef (updateEnv k f s) = mountRef s"
  "rendererRef (updateEnv k f s) = rendererRef s"
  "controlsRef (updateEnv k f s) = controlsRef s"
  "animationFrameRef (updateEnv k f s) = animationFrameRef s"
  "loading (updateEnv k f s) = loading s"
  "error (updateEnv k f s) = error s"
  "nextEnv (updateEnv k f s) = nextEnv s"
  "frames (updateEnv k f s) = frames s"
  "nextFrame (updateEnv k f s) = nextFrame s"
  "cleanup (updateEnv k f s) = cleanup s"
  "devicePixelRatio (updateEnv k f s) = devicePixelRatio s"
  "console (updateEnv k f s) = console s"
  by (simp_all add: updateEnv_def split: option.splits)

lemma envs_updateEnv:
  "envs (updateEnv k f s) j = (if j = k then map_option f (envs s k) else envs s j)"
  by (simp add: updateEnv_def split: option.splits)

lemma envsOk_updateEnv:
  "envsOk s \<Longrightarrow> (\<And>e. envOk e \<Longrightarrow> envOk (f e)) \<Longrightarrow> envsOk (updateEnv k f s)"
  unfolding envsOk_def by (auto simp: envs_updateEnv split: if_splits)

lemma idle_updateEnv: "idle (updateEnv k f s) = idle s"
  by (simp add: idle_def updateEnv_fields)

lemma running_updateEnv:
  "running j s \<Longrightarrow> (\<And>e. envLive e \<Longrightarrow> envLive (f e)) \<Longrightarrow> running j (updateEnv k f s)"
  unfolding running_def by (auto simp: updateEnv_fields envs_updateEnv)

lemma wf_updateEnv:
  assumes "wf s" "\<And>e. envOk e \<Longrightarrow> envOk (f e)" "\<And>e. envLive e \<Longrightarrow> envLive (f e)"
  shows "wf (updateEnv k f s)"
proof -
  have "envsOk (updateEnv k f s)"
    using assms(1,2) by (auto simp: wf_def intro: envsOk_updateEnv)
  moreover have "idle (updateEnv k f s) \<or> (\<exists>j. running j (updateEnv k f s))"
    using assms(1,3) running_updateEnv[of _ s f k] by (auto simp: wf_def idle_updateEnv)
  ultimately show ?thesis by (simp add: wf_def)
qed

lemma wf_initial: "wf initialViewer"
  by (simp add: wf_def idle_def envsOk_def initialViewer_def)

lemma fov_adjust: "fov (adjustCamera m c) = fov c"
  by (simp add: adjustCamera_def Let_def)

lemma lights_noMesh: "filter isMesh lights = []"
  by (simp add: lights_def)

lemma envOk_newEnv: "envOk (newEnv p d)"
  by (simp add: envOk_def newEnv_def newPerspectiveCamera_def lights_noMesh)

lemma envLive_newEnv: "envLive (newEnv p d)"
  by (simp add: envLive_def newEnv_def)

lemma envOk_simps:
  "envOk (render e) = envOk e"
  "envOk (disposeRenderer e) = envOk e"
  "envOk (disposeControls e) = envOk e"
  "envOk e \<Longrightarrow> envOk (e\<lparr>scene := []\<rparr>)"
  by (simp_all add: envOk_def render_def disposeRenderer_def disposeControls_def)

lemma envLive_simps:
  "envLive (render e) = envLive e"
  "envLive (disposeRenderer e) = envLive e"
  "envLive (disposeControls e) = envLive e"
  by (simp_all add: envLive_def render_def disposeRenderer_def disposeControls_def)

text \<open>The invariant reads these fields only.\<close>

lemma wf_cong:
  assumes "wf s" "cleanup s' = cleanup s" "rendererRef s' = rendererRef s" "controlsRef s' = controlsRef s"
    "mountRef s' = mountRef s" "frames s' = frames s" "animationFrameRef s' = animationFrameRef s"
    "envs s' = envs s"
  shows "wf s'"
  using assms by (simp add: wf_def idle_def running_def envsOk_def)

lemma onLoad_wf: "wf s \<Longrightarrow> wf (onLoad k g s)"
proof -
  assume w: "wf s"
  let ?f = "\<lambda>e. e\<lparr>camera := fitCamera g (camera e),
               scene := scene e @ [newMesh (modelColor (props e)) g], loadPending := False\<rparr>"
  have "wf (updateEnv k ?f s)"
    by (rule wf_updateEnv[OF w]) (simp_all add: envOk_def envLive_def fitCamera_def fov_adjust)
  then show ?thesis
    by (rule wf_cong) (simp_all add: onLoad_def)
qed

lemma onError_wf: "wf s \<Longrightarrow> wf (onError k err s)"
proof -
  assume w: "wf s"
  have "wf (updateEnv k (\<lambda>e. e\<lparr>loadPending := False\<rparr>) s)"
    by (rule wf_updateEnv[OF w]) (simp_all add: envOk_def envLive_def)
  then show ?thesis
    by (rule wf_cong) (simp_all add: onError_def)
qed

lemma onProgress_wf: "wf s \<Longrightarrow> wf (onProgress l t s)"
  by (erule wf_cong) (simp_all add: onProgress_def)

lemma animate_fields:
  "cleanup (animate k s) = cleanup s"
  "rendererRef (animate k s) = rendererRef s"
  "controlsRef (animate k s) = controlsRef s"
  "mountRef (animate k s) = mountRef s"
  "frames (animate k s) = frames s @ [(nextFrame s, k)]"
  "animationFrameRef (animate k s) = Some (nextFrame s)"
  "envs (animate k s) = envs (updateEnv k render s)"
  "loading (animate k s) = loading s"
  "error (animate k s) = error s"
  by (simp_all add: animate_def requestAnimationFrame_def updateEnv_fields Let_def)

lemma envsOk_cong: "envs s' = envs s \<Longrightarrow> envsOk s' = envsOk s"
  by (simp add: envsOk_def)

lemma frame_wf:
  assumes w: "wf s" and m: "map_of (frames s) h = Some k"
  shows "wf (animate k (cancelAnimationFrame h s))"
proof -
  from w m obtain j where r: "running j s" and o: "envsOk s"
    by (auto simp: wf_def idle_def)
  from r m have jk: "j = k" and fr: "frames s = [(h, k)]"
    by (auto simp: running_def split: if_splits)
  let ?c = "cancelAnimationFrame h s"
  have c: "frames ?c = []" "envs ?c = envs s" "cleanup ?c = cleanup s" "rendererRef ?c = rendererRef s"
    "controlsRef ?c = controlsRef s" "mountRef ?c = mountRef s"
    using fr by (simp_all add: cancelAnimationFrame_def)
  have "envsOk ?c" using o c(2) by (simp add: envsOk_def)
  then have "envsOk (updateEnv k render ?c)"
    by (rule envsOk_updateEnv) (simp add: envOk_simps)
  then have 1: "envsOk (animate k ?c)"
    by (simp add: envsOk_def animate_fields)
  from r jk obtain e where e: "envs s k = Some e" "envLive e"
    by (auto simp: running_def)
  have 2: "running k (animate k ?c)"
    using r jk e c unfolding running_def
    by (simp add: animate_fields envs_updateEnv envLive_simps)
  from 1 2 show ?thesis by (auto simp: wf_def)
qed

lemma init_idle:
  assumes i: "idle s" and o: "envsOk s"
  shows "\<exists>s'. initialize p s = Inr s' \<and> running (nextEnv s) s' \<and> envsOk s'"
proof -
  let ?k = "nextEnv s"
  let ?s2 = "case animationFrameRef s of None \<Rightarrow> s | Some h \<Rightarrow> cancelAnimationFrame h s"
  let ?s3 = "?s2\<lparr>envs := (envs ?s2)(?k \<mapsto> newEnv p (devicePixelRatio ?s2)),
                nextEnv := ?k + 1, rendererRef := Some ?k,
                mountRef := map_option (appendChild ?k) (mountRef ?s2), controlsRef := Some ?k\<rparr>"
  have s2: "nextEnv ?s2 = ?k" "frames ?s2 = []" "envs ?s2 = envs s" "mountRef ?s2 = Some []"
    using i by (simp_all add: idle_def cancelAnimationFrame_def split: option.splits)
  have eq: "initialize p s = Inr ((animate ?k ?s3)\<lparr>cleanup := Some ?k\<rparr>)"
    using i s2(1) by (simp add: initialize_def clearExisting_def idle_def Let_def)
  have o3: "envsOk ?s3"
    using o s2(3) by (auto simp: envsOk_def envOk_newEnv)
  then have "envsOk (updateEnv ?k render ?s3)"
    by (rule envsOk_updateEnv) (simp add: envOk_simps)
  then have 1: "envsOk ((animate ?k ?s3)\<lparr>cleanup := Some ?k\<rparr>)"
    by (simp add: envsOk_def animate_fields)
  have 2: "running ?k ((animate ?k ?s3)\<lparr>cleanup := Some ?k\<rparr>)"
    unfolding running_def using s2
    by (simp add: animate_fields envs_updateEnv envLive_simps envLive_newEnv appendChild_def)
  from eq 1 2 show ?thesis by simp
qed

lemma teardown_running:
  assumes r: "running k s" and o: "envsOk s"
  shows "\<exists>s'. teardown k s = Inr s' \<and> idle (s'\<lparr>cleanup := None\<rparr>) \<and> envsOk s' \<and>
     animationFrameRef s' = animationFrameRef s"
proof -
  from r obtain h where h: "frames s = [(h, k)]" "animationFrameRef s = Some h"
    by (auto simp: running_def)
  let ?s1 = "cancelAnimationFrame h s"
  let ?s2 = "updateEnv k (\<lambda>e. e\<lparr>scene := []\<rparr>) ?s1"
  let ?s3 = "(updateEnv k disposeControls ?s2)\<lparr>controlsRef := None\<rparr>"
  let ?s4 = "updateEnv k disposeRenderer ?s3"
  let ?s5 = "?s4\<lparr>mountRef := Some [], rendererRef := None\<rparr>"
  have f1: "frames ?s1 = []" "envs ?s1 = envs s" "controlsRef ?s1 = Some k" "rendererRef ?s1 = Some k"
    "mountRef ?s1 = Some [k]" "animationFrameRef ?s1 = Some h"
    using r h by (simp_all add: cancelAnimationFrame_def running_def)
  have eq: "teardown k s = Inr ?s5"
    using h f1 by (simp add: teardown_def Let_def updateEnv_fields removeChild_def)
  have "envsOk ?s1" using o f1(2) by (simp add: envsOk_def)
  then have "envsOk ?s2" by (rule envsOk_updateEnv) (simp add: envOk_simps)
  then have "envsOk (updateEnv k disposeControls ?s2)"
    by (rule envsOk_updateEnv) (simp add: envOk_simps)
  then have "envsOk ?s3" by (simp add: envsOk_def)
  then have "envsOk ?s4" by (rule envsOk_updateEnv) (simp add: envOk_simps)
  then have 1: "envsOk ?s5" by (simp add: envsOk_def)
  have 2: "idle (?s5\<lparr>cleanup := None\<rparr>)"
    using f1 by (simp add: idle_def updateEnv_fields)
  have 3: "animationFrameRef ?s5 = animationFrameRef s"
    using f1 h by (simp add: updateEnv_fields)
  from eq 1 2 3 show ?thesis by simp
qed

lemma step_wf: "wf s \<Longrightarrow> enabled ev s \<Longrightarrow> \<exists>s'. step ev s = Inr s' \<and> wf s'"
proof (cases ev)
  case (Init p)
  assume "wf s" "enabled ev s"
  then have "idle s" "envsOk s" using Init by (auto simp: wf_def running_def)
  from init_idle[OF this, of p] show ?thesis using Init by (auto simp: wf_def)
next
  case Teardown
  assume "wf s" "enabled ev s"
  then obtain k where k: "running k s" "envsOk s" using Teardown by (auto simp: wf_def idle_def)
  from teardown_running[OF this] obtain s' where
    "teardown k s = Inr s'" "idle (s'\<lparr>cleanup := None\<rparr>)" "envsOk s'" by blast
  then show ?thesis using Teardown k(1) by (auto simp: wf_def running_def envsOk_def)
next
  case (LoadSuccess k g)
  assume "wf s" then show ?thesis using LoadSuccess onLoad_wf by simp
next
  case (LoadProgress k l t)
  assume "wf s" then show ?thesis using LoadProgress onProgress_wf by simp
next
  case (LoadError k err)
  assume "wf s" then show ?thesis using LoadError onError_wf by simp
next
  case (Frame h)
  assume "wf s" "enabled ev s" then show ?thesis using Frame frame_wf by auto
qed

lemma exec_wf: "wf s \<Longrightarrow> exec evs s = Some s' \<Longrightarrow> wf s'"
proof (induction evs arbitrary: s)
  case Nil then show ?case by simp
next
  case (Cons ev evs)
  then show ?case using step_wf[of s ev] by (auto split: if_splits sum.splits)
qed

lemma exec_initial_wf: "exec evs initialViewer = Some s \<Longrightarrow> wf s"
  using exec_wf[OF wf_initial] .

section \<open>Facts about the camera fit\<close>

lemma sin_fov_eq: "sin (75 * (pi / 180) / 2) = sin halfFov"
  by (simp add: halfFov_def)

lemma getSize_nonneg: "0 \<le> vx (getSize b) \<and> 0 \<le> vy (getSize b) \<and> 0 \<le> vz (getSize b)"
  by (cases b) (auto simp: vec3_def subVectors_def)

lemma maxDimOf_nonneg: "0 \<le> maxDimOf g"
  using getSize_nonneg[of "computeBoundingBox g"] by (simp add: maxDimOf_def Let_def max_def)

lemma adjustCamera_75:
  assumes "fov cam = 75"
  shows "vz (position (adjustCamera m cam)) = \<bar>m / sin halfFov\<bar> * 1.5"
    and "near (adjustCamera m cam) = max (m * 0.01) 0.1"
    and "far (adjustCamera m cam) = (\<bar>m / sin halfFov\<bar> + m / 2) * 2"
  using assms by (simp_all add: adjustCamera_def Let_def halfFov_def)

lemma abs_fit: "0 \<le> m \<Longrightarrow> \<bar>m / sin halfFov\<bar> = m / sin halfFov"
  by (rule abs_of_nonneg) (use sin_halfFov_pos in simp)

lemma fitCamera_formula:
  "fov cam = 75 \<Longrightarrow>
     vz (position (fitCamera g cam)) = 1.5 * (maxDimOf g / sin (75 * (pi / 180) / 2)) \<and>
     far (fitCamera g cam) = (maxDimOf g / sin (75 * (pi / 180) / 2) + maxDimOf g / 2) * 2"
  unfolding sin_fov_eq fitCamera_def
  by (simp only: adjustCamera_75 abs_fit[OF maxDimOf_nonneg]) simp

lemma recip_bounds: "(16423/10000) < 1 / sin halfFov" "1 / sin halfFov < (16434/10000)"
proof -
  have "1 / 0.6089 < 1 / sin halfFov"
    using sin_halfFov_bounds sin_halfFov_pos by (intro divide_strict_left_mono) simp_all
  then show "(16423/10000) < 1 / sin halfFov" by simp
  have "1 / sin halfFov < 1 / 0.6085"
    using sin_halfFov_bounds sin_halfFov_pos by (intro divide_strict_left_mono) simp_all
  then show "1 / sin halfFov < (16434/10000)" by simp
qed

lemma far_eq: "(m / sin halfFov + m / 2) * 2 = (2 * (1 / sin halfFov) + 1) * m"
  by (simp add: algebra_simps)

lemma far_lower: assumes "0 < m" shows "(42846/10000) * m < (m / sin halfFov + m / 2) * 2"
proof -
  have "(42846/10000) < 2 * (1 / sin halfFov) + 1" using recip_bounds(1) by linarith
  then have "(42846/10000) * m < (2 * (1 / sin halfFov) + 1) * m"
    using assms by (rule mult_strict_right_mono)
  then show ?thesis by (simp only: far_eq)
qed

lemma far_upper: assumes "0 < m" shows "(m / sin halfFov + m / 2) * 2 < (42868/10000) * m"
proof -
  have "2 * (1 / sin halfFov) + 1 < (42868/10000)" using recip_bounds(2) by linarith
  then have "(2 * (1 / sin halfFov) + 1) * m < (42868/10000) * m"
    using assms by (rule mult_strict_right_mono)
  then show ?thesis by (simp only: far_eq)
qed

lemma fov_newEnv: "fov (camera (newEnv p d)) = 75"
  by (simp add: newEnv_def newPerspectiveCamera_def)

section \<open>Facts about the bounding box\<close>

lemma expand_translate:
  "expandByPoint (translateBox p b) (addVectors v p) = translateBox p (expandByPoint b v)"
  by (cases b)
    (simp_all add: vmin_def vmax_def addVectors_def vec3_def min_add_distrib_left
      min_add_distrib_right max_add_distrib_left max_add_distrib_right)

lemma foldl_translate:
  "foldl expandByPoint (translateBox p b) (translated p g) = translateBox p (foldl expandByPoint b g)"
  unfolding translated_def
  by (induction g arbitrary: b) (simp_all add: expand_translate)

lemma computeBoundingBox_translated:
  "computeBoundingBox (translated p g) = translateBox p (computeBoundingBox g)"
  using foldl_translate[of p EmptyBox g] by (simp add: computeBoundingBox_def)

lemma getCenter_translateBox:
  "getCenter (translateBox p b) = (if isEmpty b then vec3 0 0 0 else addVectors (getCenter b) p)"
  by (cases b) (auto simp: addVectors_def multiplyScalar_def vec3_def algebra_simps)

lemma add_neg: "addVectors c (vec3 (- vx c) (- vy c) (- vz c)) = origin"
  by (simp add: addVectors_def origin_def vec3_def)

lemma cube_box: "computeBoundingBox cube = Box (vec3 (-1) (-1) (-1)) (vec3 1 1 1)"
  by (simp add: computeBoundingBox_def cube_def vmin_def vmax_def vec3_def)

lemma cube_maxDim: "maxDimOf cube = 2"
  by (simp add: maxDimOf_def cube_box vec3_def subVectors_def)

lemma cube_center: "centerOf cube = origin"
  by (simp add: centerOf_def cube_box vec3_def addVectors_def multiplyScalar_def origin_def)

lemma cube_fit:
  "vz (position (fitCamera cube (camera (newEnv p d)))) = 2 / sin halfFov * 1.5"
  "near (fitCamera cube (camera (newEnv p d))) = 0.1"
  "far (fitCamera cube (camera (newEnv p d))) = (2 / sin halfFov + 1) * 2"
proof -
  have a: "\<bar>2 / sin halfFov\<bar> = 2 / sin halfFov" by (rule abs_fit) simp
  show "vz (position (fitCamera cube (camera (newEnv p d)))) = 2 / sin halfFov * 1.5"
    unfolding fitCamera_def cube_maxDim adjustCamera_75(1)[OF fov_newEnv] a by (rule refl)
  show "near (fitCamera cube (camera (newEnv p d))) = 0.1"
    unfolding fitCamera_def cube_maxDim adjustCamera_75(2)[OF fov_newEnv] by simp
  show "far (fitCamera cube (camera (newEnv p d))) = (2 / sin halfFov + 1) * 2"
    unfolding fitCamera_def cube_maxDim adjustCamera_75(3)[OF fov_newEnv] a by simp
qed

lemma cube_values:
  "2 / sin halfFov * 1.5 = 3 * (1 / sin halfFov)"
  "(2 / sin halfFov + 1) * 2 = 4 * (1 / sin halfFov) + 2"
  by simp_all

lemma approx_values:
  assumes "(16423/10000) < (r::real)" "r < (16434/10000)"
  shows "approx (3 * r) 4.93" and "approx (4 * r + 2) 8.57"
    and "\<not> approx (3 * r) 2.46" and "\<not> approx (4 * r + 2) 6.92"
proof -
  show "approx (3 * r) 4.93" unfolding approx_def abs_le_iff using assms by simp
  show "approx (4 * r + 2) 8.57" unfolding approx_def abs_le_iff using assms by simp
  show "\<not> approx (3 * r) 2.46" using assms by (simp add: approx_def)
  show "\<not> approx (4 * r + 2) 6.92" using assms by (simp add: approx_def)
qed

text \<open>
  The bounding box of a mesh with a vertex, by the least and the greatest coordinate of its
  vertices on each axis.
\<close>

lemma Min_insert_min:
  fixes a b :: real
  shows "finite S \<Longrightarrow> Min (insert (min a b) S) = Min (insert a (insert b S))"
  by (cases "S = {}") (simp_all add: min.assoc)

lemma Max_insert_max:
  fixes a b :: real
  shows "finite S \<Longrightarrow> Max (insert (max a b) S) = Max (insert a (insert b S))"
  by (cases "S = {}") (simp_all add: max.assoc)

lemma foldl_expand_Box:
  "foldl expandByPoint (Box lo hi) vs =
     Box (vec3 (Min (insert (vx lo) (vx ` set vs))) (Min (insert (vy lo) (vy ` set vs)))
               (Min (insert (vz lo) (vz ` set vs))))
         (vec3 (Max (insert (vx hi) (vx ` set vs))) (Max (insert (vy hi) (vy ` set vs)))
               (Max (insert (vz hi) (vz ` set vs))))"
proof (induction vs arbitrary: lo hi)
  case Nil
  show ?case by (simp add: vec3_def)
next
  case (Cons v vs)
  show ?case
    by (simp add: Cons.IH vmin_def vmax_def vec3_def Min_insert_min Max_insert_max)
qed

lemma computeBoundingBox_MinMax:
  assumes "g \<noteq> []"
  shows "computeBoundingBox g =
     Box (vec3 (Min (vx ` set g)) (Min (vy ` set g)) (Min (vz ` set g)))
         (vec3 (Max (vx ` set g)) (Max (vy ` set g)) (Max (vz ` set g)))"
proof -
  obtain v vs where g: "g = v # vs" using assms by (cases g) auto
  show ?thesis unfolding g computeBoundingBox_def by (simp add: foldl_expand_Box)
qed

lemma MinMax_le:
  fixes f :: "Vector3 \<Rightarrow> real"
  shows "g \<noteq> [] \<Longrightarrow> Min (f ` set g) \<le> Max (f ` set g)"
  by (simp add: Min_le_iff)

lemma centerOf_MinMax:
  assumes "g \<noteq> []"
  shows "centerOf g = vec3 ((Min (vx ` set g) + Max (vx ` set g)) * 0.5)
                           ((Min (vy ` set g) + Max (vy ` set g)) * 0.5)
                           ((Min (vz ` set g) + Max (vz ` set g)) * 0.5)"
  using MinMax_le[OF assms, of vx] MinMax_le[OF assms, of vy] MinMax_le[OF assms, of vz]
  by (simp add: centerOf_def computeBoundingBox_MinMax[OF assms] vec3_def addVectors_def
      multiplyScalar_def)

lemma translated_nonempty: "g \<noteq> [] \<Longrightarrow> translated p g \<noteq> []"
  by (simp add: translated_def)

lemma origin_sym:
  assumes "g \<noteq> []" and "centerOf g = origin"
  shows "Min (vx ` set g) + Max (vx ` set g) = 0"
    and "Min (vy ` set g) + Max (vy ` set g) = 0"
    and "Min (vz ` set g) + Max (vz ` set g) = 0"
  using assms(2) unfolding centerOf_MinMax[OF assms(1)] by (simp_all add: origin_def vec3_def)

text \<open>The position the success callback gives the mesh, and the mesh it builds.\<close>

lemma newMesh_centred:
  "addVectors (centerOf g) (meshPosition (newMesh col g)) = origin \<and>
   centerOf (translated (meshPosition (newMesh col g)) g) = origin"
proof -
  have p: "meshPosition (newMesh col g)
      = vec3 (- vx (centerOf g)) (- vy (centerOf g)) (- vz (centerOf g))"
    by (simp add: newMesh_def Let_def)
  have 1: "addVectors (centerOf g) (meshPosition (newMesh col g)) = origin"
    unfolding p by (rule add_neg)
  have 2: "centerOf (translated (meshPosition (newMesh col g)) g) = origin"
  proof (cases "isEmpty (computeBoundingBox g)")
    case True
    then show ?thesis
      by (simp add: centerOf_def computeBoundingBox_translated getCenter_translateBox origin_def)
  next
    case False
    then have "centerOf (translated (meshPosition (newMesh col g)) g)
        = addVectors (centerOf g) (meshPosition (newMesh col g))"
      by (simp add: centerOf_def computeBoundingBox_translated getCenter_translateBox)
    then show ?thesis using 1 by simp
  qed
  from 1 2 show ?thesis by simp
qed

lemma newMesh_shape: "newMesh col g = Mesh g \<lparr>color = col, specular = 0x111111, shininess = 200\<rparr> (meshPosition (newMesh col g))"
  by (simp add: newMesh_def Let_def)

lemma sceneOf_onLoad:
  "envs s k = Some e \<Longrightarrow>
   sceneOf k (onLoad k g s) = sceneOf k s @ [newMesh (modelColor (props e)) g]"
  by (simp add: sceneOf_def onLoad_def updateEnv_def)

lemma tinyPart_box: "computeBoundingBox tinyPart = Box (vec3 (-0.005) (-0.005) (-0.005)) (vec3 0.005 0.005 0.005)"
  by (simp add: computeBoundingBox_def tinyPart_def cube_def vmin_def vmax_def vec3_def multiplyScalar_def)

lemma tinyPart_maxDim: "maxDimOf tinyPart = 1 / 100"
  by (simp add: maxDimOf_def tinyPart_box vec3_def subVectors_def)

text \<open>
  Where the two planes are in order, for the viewer's field of view: the near plane is
  below the far plane from a \<open>maxDim\<close> of 0.0234 on, and above it up to 0.0233.
\<close>

lemma near_far_ranges:
  assumes "0 < maxDim" and "fov cam = 75"
  shows "near (adjustCamera maxDim cam) = max (maxDim * 0.01) 0.1 \<and>
         far (adjustCamera maxDim cam) = (maxDim / sin (75 * (pi / 180) / 2) + maxDim / 2) * 2 \<and>
         (0.0234 \<le> maxDim \<longrightarrow> near (adjustCamera maxDim cam) < far (adjustCamera maxDim cam)) \<and>
         (maxDim \<le> 0.0233 \<longrightarrow> far (adjustCamera maxDim cam) < near (adjustCamera maxDim cam))"
proof -
  have a: "\<bar>maxDim / sin halfFov\<bar> = maxDim / sin halfFov"
    using assms(1) by (intro abs_fit) simp
  have n: "near (adjustCamera maxDim cam) = max (maxDim * 0.01) 0.1"
    using assms(2) by (rule adjustCamera_75)
  have f: "far (adjustCamera maxDim cam) = (maxDim / sin halfFov + maxDim / 2) * 2"
    using adjustCamera_75(3)[OF assms(2), of maxDim] by (simp only: a)
  have lo: "(42846/10000) * maxDim < far (adjustCamera maxDim cam)"
    unfolding f using assms(1) by (rule far_lower)
  have hi: "far (adjustCamera maxDim cam) < (42868/10000) * maxDim"
    unfolding f using assms(1) by (rule far_upper)
  have 1: "near (adjustCamera maxDim cam) < far (adjustCamera maxDim cam)" if "0.0234 \<le> maxDim"
    unfolding n using lo that assms(1) by (simp add: max_def)
  have 2: "far (adjustCamera maxDim cam) < near (adjustCamera maxDim cam)" if "maxDim \<le> 0.0233"
    unfolding n using hi that by (simp add: max_def)
  show ?thesis using n f 1 2 unfolding sin_fov_eq by simp
qed

section \<open>Facts about the callbacks and the cleanup\<close>

lemmas model_defs = initialViewer_def initialize_def clearExisting_def animate_def
  requestAnimationFrame_def cancelAnimationFrame_def updateEnv_def teardown_def
  removeChild_def appendChild_def onLoad_def onError_def onProgress_def pendingLoad_def
  disposeRenderer_def disposeControls_def render_def Let_def stateAfter_def sceneOf_def

text \<open>
  The cleanup from any state: it does not throw, it sets the renderer ref and the controls
  ref to \<^verbatim>\<open>null\<close>, it cancels the frame behind the frame ref and leaves that ref as it
  was, it takes the canvas of the renderer in the ref out of the container, and it empties
  the scene of its run.
\<close>

lemma teardown_effect:
  "\<exists>s'. teardown k s = Inr s' \<and> rendererRef s' = None \<and> controlsRef s' = None \<and>
        animationFrameRef s' = animationFrameRef s \<and>
        frames s' = (case animationFrameRef s of None \<Rightarrow> frames s
                     | Some h \<Rightarrow> filter (\<lambda>f. fst f \<noteq> h) (frames s)) \<and>
        mountRef s' = (case rendererRef s of None \<Rightarrow> mountRef s
                       | Some r \<Rightarrow> map_option (remove1 r) (mountRef s)) \<and>
        sceneOf k s' = []"
  by (auto simp: teardown_def Let_def updateEnv_fields removeChild_def cancelAnimationFrame_def
      sceneOf_def envs_updateEnv remove1_idem disposeRenderer_def disposeControls_def
      split: option.splits)

text \<open>
  The removal at the top of the effect does throw where a renderer is left in the ref and
  its canvas is not in the container: the branch is not dead code by its own shape.
\<close>

lemma clearExisting_throws:
  "clearExisting [] (initialViewer\<lparr>rendererRef := Some 0\<rparr>) = Inl NotFoundError"
  by (simp add: clearExisting_def removeChild_def initialViewer_def)

lemma sceneOf_updateEnv_same:
  "(\<And>e. scene (f e) = scene e) \<Longrightarrow> sceneOf j (updateEnv k f s) = sceneOf j s"
  by (simp add: sceneOf_def envs_updateEnv split: option.splits)

lemma sceneOf_onError: "sceneOf j (onError k err s) = sceneOf j s"
proof -
  have "sceneOf j (onError k err s) = sceneOf j (updateEnv k (\<lambda>e. e\<lparr>loadPending := False\<rparr>) s)"
    by (simp add: sceneOf_def onError_def)
  then show ?thesis by (simp add: sceneOf_updateEnv_same)
qed

lemma demo_mounted:
  "exec [Init (demoProps 600 400)] initialViewer = Some (stateAfter [Init (demoProps 600 400)])"
  "cleanup (stateAfter [Init (demoProps 600 400)]) = Some 0"
  "mountRef (stateAfter [Init (demoProps 600 400)]) = Some [0]"
  by (simp_all add: model_defs)

section \<open>The claims\<close>

text \<open>
  C1. The claim: for every \<open>maxDim > 0\<close> the near plane computed on load success is
  \<open>max (maxDim * 0.01) 0.1\<close> and is strictly below the far plane
  \<open>(maxDim / sin (fov / 2) + maxDim / 2) * 2\<close>. The code does not keep it for a small model,
  against its own comment that the near plane is set ``to avoid clipping too early/late''.
  The mounted demo page loads the part of size 0.01: the near plane is the floor 0.1, the
  far plane is below it, and the whole model, whose farthest point from the camera is at
  \<open>z + maxDim / 2\<close>, lies in front of the near plane.
\<close>

theorem small_model_clipped:
  "exec [Init (demoProps 600 400), LoadSuccess 0 tinyPart] initialViewer \<noteq> None \<and>
   map_option camera (envs (stateAfter [Init (demoProps 600 400), LoadSuccess 0 tinyPart]) 0)
     = Some (fitCamera tinyPart (camera (newEnv (demoProps 600 400) 1))) \<and>
   0 < maxDimOf tinyPart \<and>
   maxDimOf tinyPart = 1 / 100 \<and>
   near (fitCamera tinyPart (camera (newEnv (demoProps 600 400) 1))) = 0.1 \<and>
   far (fitCamera tinyPart (camera (newEnv (demoProps 600 400) 1)))
     < near (fitCamera tinyPart (camera (newEnv (demoProps 600 400) 1))) \<and>
   vz (position (fitCamera tinyPart (camera (newEnv (demoProps 600 400) 1)))) + maxDimOf tinyPart / 2
     < near (fitCamera tinyPart (camera (newEnv (demoProps 600 400) 1)))"
proof -
  let ?cam = "camera (newEnv (demoProps 600 400) 1)"
  have x: "exec [Init (demoProps 600 400), LoadSuccess 0 tinyPart] initialViewer \<noteq> None"
    by (simp add: model_defs newEnv_def)
  have c: "map_option camera (envs (stateAfter [Init (demoProps 600 400), LoadSuccess 0 tinyPart]) 0)
     = Some (fitCamera tinyPart ?cam)"
    by (simp add: model_defs newEnv_def)
  have a: "\<bar>(1 / 100) / sin halfFov\<bar> = (1 / 100) / sin halfFov" by (rule abs_fit) simp
  have n: "near (fitCamera tinyPart ?cam) = 1 / 10"
    unfolding fitCamera_def tinyPart_maxDim adjustCamera_75(2)[OF fov_newEnv] by simp
  have f: "far (fitCamera tinyPart ?cam) = ((1 / 100) / sin halfFov + (1 / 100) / 2) * 2"
    unfolding fitCamera_def tinyPart_maxDim adjustCamera_75(3)[OF fov_newEnv] a by (rule refl)
  have z: "vz (position (fitCamera tinyPart ?cam)) = (1 / 100) / sin halfFov * 1.5"
    unfolding fitCamera_def tinyPart_maxDim adjustCamera_75(1)[OF fov_newEnv] a by (rule refl)
  have r: "(1 / 100) / sin halfFov = (1 / 100) * (1 / sin halfFov)" by simp
  have fl: "far (fitCamera tinyPart ?cam) < 1 / 10"
    unfolding f r using recip_bounds(2) by simp
  have zl: "vz (position (fitCamera tinyPart ?cam)) + (1 / 100) / 2 < 1 / 10"
    unfolding z r using recip_bounds(2) by simp
  show ?thesis
    using x c n fl zl by (simp add: tinyPart_maxDim)
qed

text \<open>
  C2, as amended. For the cube of size 2 centred at the origin and the viewer's camera, the
  load-success computation takes \<open>maxDim = 2\<close>, not the half extent 1: the final camera z
  position is \<open>(2 / sin 37.5\<degree>) * 1.5\<close>, approximately 4.93, the near plane is 0.1, and the far
  plane is \<open>(2 / sin 37.5\<degree> + 1) * 2\<close>, approximately 8.57.
\<close>

theorem cube_example:
  "centerOf cube = origin \<and>
   getSize (computeBoundingBox cube) = vec3 2 2 2 \<and>
   vz (position (fitCamera cube (camera (newEnv p d)))) = (2 / sin (75 * (pi / 180) / 2)) * 1.5 \<and>
   approx (vz (position (fitCamera cube (camera (newEnv p d))))) 4.93 \<and>
   near (fitCamera cube (camera (newEnv p d))) = 0.1 \<and>
   far (fitCamera cube (camera (newEnv p d))) = (2 / sin (75 * (pi / 180) / 2) + 1) * 2 \<and>
   approx (far (fitCamera cube (camera (newEnv p d)))) 8.57"
proof -
  have s: "getSize (computeBoundingBox cube) = vec3 2 2 2"
    by (simp add: cube_box vec3_def subVectors_def)
  have a: "approx (2 / sin halfFov * 1.5) 4.93"
    unfolding cube_values using recip_bounds by (rule approx_values)
  have b: "approx ((2 / sin halfFov + 1) * 2) 8.57"
    unfolding cube_values using recip_bounds by (rule approx_values)
  show ?thesis
    unfolding sin_fov_eq cube_fit using cube_center s a b by simp
qed

text \<open>
  The values of the claim as it was stated, 2.46 and 6.92, are not what the code computes
  for the cube.
\<close>

theorem cube_example_counterexample:
  "\<not> approx (vz (position (fitCamera cube (camera (newEnv (demoProps 600 400) 1))))) 2.46 \<and>
   \<not> approx (far (fitCamera cube (camera (newEnv (demoProps 600 400) 1)))) 6.92"
proof -
  have a: "\<not> approx (2 / sin halfFov * 1.5) 2.46"
    unfolding cube_values using recip_bounds by (rule approx_values)
  have b: "\<not> approx ((2 / sin halfFov + 1) * 2) 6.92"
    unfolding cube_values using recip_bounds by (rule approx_values)
  show ?thesis unfolding cube_fit using a b by simp
qed

text \<open>
  C3, as amended. Neither load-completion callback makes a mount-liveness check. In every
  state, whether the run of the callback is still mounted or has been torn down, the success
  callback adds the centred mesh to the scene of its run, fits that run's camera and clears
  the loading state, and the failure callback sets the error message and clears the loading
  state; what they do is the same whatever the container ref, the renderer ref, the controls
  ref and the registered cleanup are.
\<close>

theorem callbacks_unguarded:
  assumes "envs s k = Some e"
  shows "envs (onLoad k g s) k =
           Some (e\<lparr>camera := fitCamera g (camera e),
                   scene := scene e @ [newMesh (modelColor (props e)) g],
                   loadPending := False\<rparr>) \<and>
         loading (onLoad k g s) = False \<and>
         error (onError k err s) = Some ''Failed to load the 3D model.'' \<and>
         loading (onError k err s) = False \<and>
         onLoad k g (s\<lparr>mountRef := m, rendererRef := r, controlsRef := c, cleanup := cl\<rparr>) =
           (onLoad k g s)\<lparr>mountRef := m, rendererRef := r, controlsRef := c, cleanup := cl\<rparr> \<and>
         onError k err (s\<lparr>mountRef := m, rendererRef := r, controlsRef := c, cleanup := cl\<rparr>) =
           (onError k err s)\<lparr>mountRef := m, rendererRef := r, controlsRef := c, cleanup := cl\<rparr>"
  using assms by (simp add: onLoad_def onError_def updateEnv_def)

text \<open>
  The theorem at the first run of the demo page, after that run has been torn down and the
  second run mounted.
\<close>

theorem callbacks_unguarded_witness:
  "envs (stateAfter staleTrace) 0 \<noteq> None \<and>
   cleanup (stateAfter staleTrace) = Some 1 \<and>
   loading (onLoad 0 cube (stateAfter staleTrace)) = False \<and>
   sceneOf 0 (onLoad 0 cube (stateAfter staleTrace)) = [newMesh ''#ffffff'' cube] \<and>
   error (onError 0 ''404'' (stateAfter staleTrace)) = Some ''Failed to load the 3D model.''"
proof -
  obtain e where e: "envs (stateAfter staleTrace) 0 = Some e" "scene e = []"
      "modelColor (props e) = ''#ffffff''"
    by (simp add: model_defs staleTrace_def demoProps_def newEnv_def)
  have c: "cleanup (stateAfter staleTrace) = Some 1"
    by (simp add: model_defs staleTrace_def)
  from callbacks_unguarded[OF e(1), of cube "''404''"] e c show ?thesis
    by (simp add: sceneOf_def)
qed

text \<open>
  A load that completes after the teardown of its run does update the state: the first
  request of the demo page succeeds after the second run is mounted, the loading state goes
  from set to cleared while the second request is in flight, and the cleared scene of the
  first run gets the mesh. A late failure sets the error message.
\<close>

theorem callbacks_unguarded_counterexample:
  "exec staleTrace initialViewer \<noteq> None \<and>
   cleanup (stateAfter staleTrace) = Some 1 \<and>
   enabled (LoadSuccess 0 cube) (stateAfter staleTrace) \<and>
   loading (stateAfter staleTrace) = True \<and>
   sceneOf 0 (stateAfter staleTrace) = [] \<and>
   loading (stateAfter (staleTrace @ [LoadSuccess 0 cube])) = False \<and>
   sceneOf 0 (stateAfter (staleTrace @ [LoadSuccess 0 cube])) = [newMesh ''#ffffff'' cube] \<and>
   error (stateAfter (staleTrace @ [LoadError 0 ''404''])) = Some ''Failed to load the 3D model.''"
  by (simp add: model_defs staleTrace_def demoProps_def newEnv_def)

text \<open>
  C4. On load success, in every state a trace leads to and for every run and geometry, the
  camera z position is set to \<open>1.5 * (maxDim / sin (fov / 2))\<close> with \<open>fov\<close> 75 degrees in
  radians, and the far plane to \<open>(cameraZ + maxDim / 2) * 2\<close> with
  \<open>cameraZ = maxDim / sin (fov / 2)\<close>.
\<close>

theorem camera_fit_formula:
  assumes "exec evs initialViewer = Some s" and "envs s k = Some e"
  shows "\<exists>e'. envs (onLoad k g s) k = Some e' \<and>
           vz (position (camera e')) = 1.5 * (maxDimOf g / sin (75 * (pi / 180) / 2)) \<and>
           far (camera e') = (maxDimOf g / sin (75 * (pi / 180) / 2) + maxDimOf g / 2) * 2"
proof -
  have "wf s" using assms(1) by (rule exec_initial_wf)
  with assms(2) have f: "fov (camera e) = 75" by (auto simp: wf_def envsOk_def envOk_def)
  let ?e = "e\<lparr>camera := fitCamera g (camera e),
               scene := scene e @ [newMesh (modelColor (props e)) g], loadPending := False\<rparr>"
  have "envs (onLoad k g s) k = Some ?e"
    using assms(2) by (simp add: onLoad_def updateEnv_def)
  moreover have "camera ?e = fitCamera g (camera e)" by simp
  ultimately show ?thesis using fitCamera_formula[OF f, of g] by (intro exI[of _ ?e]) simp
qed

text \<open>The theorem at the mounted demo page, for the cube.\<close>

theorem camera_fit_formula_witness:
  "exec [Init (demoProps 600 400)] initialViewer \<noteq> None \<and>
   envs (stateAfter [Init (demoProps 600 400)]) 0 \<noteq> None \<and>
   (\<exists>e'. envs (onLoad 0 cube (stateAfter [Init (demoProps 600 400)])) 0 = Some e' \<and>
      vz (position (camera e')) = 1.5 * (2 / sin (75 * (pi / 180) / 2)) \<and>
      far (camera e') = (2 / sin (75 * (pi / 180) / 2) + 2 / 2) * 2)"
proof -
  obtain e where e: "envs (stateAfter [Init (demoProps 600 400)]) 0 = Some e"
    by (simp add: model_defs)
  from camera_fit_formula[OF demo_mounted(1) e, of cube] demo_mounted(1) e
  show ?thesis unfolding cube_maxDim by simp
qed

text \<open>
  C5. For every mesh with a vertex, a successful load adds the mesh to the scene of its run
  at a position for which the vertices as they are shown, offset by that position, have a
  bounding box centred at the origin: on each axis their least and their greatest coordinate
  are opposite. The center of the geometry's bounding box, offset by the position, is the
  origin, wherever the geometry was authored.
\<close>

theorem load_centres_mesh:
  assumes "pendingLoad k s" and "g \<noteq> []"
  shows "\<exists>m p. step (LoadSuccess k g) s = Inr (onLoad k g s) \<and>
           sceneOf k (onLoad k g s) = sceneOf k s @ [Mesh g m p] \<and>
           Min (vx ` set (translated p g)) + Max (vx ` set (translated p g)) = 0 \<and>
           Min (vy ` set (translated p g)) + Max (vy ` set (translated p g)) = 0 \<and>
           Min (vz ` set (translated p g)) + Max (vz ` set (translated p g)) = 0 \<and>
           addVectors (centerOf g) p = origin \<and>
           centerOf (translated p g) = origin"
proof -
  from assms(1) obtain e where e: "envs s k = Some e"
    by (auto simp: pendingLoad_def split: option.splits)
  let ?col = "modelColor (props e)"
  let ?p = "meshPosition (newMesh ?col g)"
  let ?m = "\<lparr>color = ?col, specular = 0x111111, shininess = 200\<rparr>"
  have sc: "sceneOf k (onLoad k g s) = sceneOf k s @ [Mesh g ?m ?p]"
    using sceneOf_onLoad[OF e, of g] newMesh_shape[of ?col g] by simp
  note c = newMesh_centred[of g ?col]
  have ne: "translated ?p g \<noteq> []" using assms(2) by (rule translated_nonempty)
  from c have o: "centerOf (translated ?p g) = origin" by simp
  note sym = origin_sym[OF ne o]
  show ?thesis
    using sc sym c by (intro exI[of _ ?m] exI[of _ ?p]) simp
qed

text \<open>
  The theorem at the mounted demo page, for the mesh away from the origin: it is placed at
  (-11, -2, 1).
\<close>

theorem load_centres_mesh_witness:
  "pendingLoad 0 (stateAfter [Init (demoProps 600 400)]) \<and> offCentre \<noteq> [] \<and>
   centerOf offCentre = vec3 11 2 (-1) \<and>
   sceneOf 0 (onLoad 0 offCentre (stateAfter [Init (demoProps 600 400)])) =
     lights @ [Mesh offCentre \<lparr>color = ''#ffffff'', specular = 0x111111, shininess = 200\<rparr>
                 (vec3 (-11) (-2) 1)] \<and>
   translated (vec3 (-11) (-2) 1) offCentre = [vec3 (-1) (-2) (-1), vec3 1 2 1, vec3 0 (-1) 0] \<and>
   (\<exists>m p. sceneOf 0 (onLoad 0 offCentre (stateAfter [Init (demoProps 600 400)])) =
       sceneOf 0 (stateAfter [Init (demoProps 600 400)]) @ [Mesh offCentre m p] \<and>
       Min (vx ` set (translated p offCentre)) + Max (vx ` set (translated p offCentre)) = 0 \<and>
       Min (vy ` set (translated p offCentre)) + Max (vy ` set (translated p offCentre)) = 0 \<and>
       Min (vz ` set (translated p offCentre)) + Max (vz ` set (translated p offCentre)) = 0)"
proof -
  have p: "pendingLoad 0 (stateAfter [Init (demoProps 600 400)])"
    by (simp add: model_defs newEnv_def)
  have ne: "offCentre \<noteq> []" by (simp add: offCentre_def)
  have c: "centerOf offCentre = vec3 11 2 (-1)"
    by (simp add: centerOf_def computeBoundingBox_def offCentre_def vmin_def vmax_def vec3_def
        addVectors_def multiplyScalar_def)
  have sc: "sceneOf 0 (onLoad 0 offCentre (stateAfter [Init (demoProps 600 400)])) =
     lights @ [Mesh offCentre \<lparr>color = ''#ffffff'', specular = 0x111111, shininess = 200\<rparr>
                 (vec3 (-11) (-2) 1)]"
    by (simp add: model_defs newEnv_def demoProps_def newMesh_def c) (simp add: vec3_def)
  have t: "translated (vec3 (-11) (-2) 1) offCentre = [vec3 (-1) (-2) (-1), vec3 1 2 1, vec3 0 (-1) 0]"
    by (simp add: translated_def offCentre_def addVectors_def vec3_def)
  from load_centres_mesh[OF p ne] have
    "\<exists>m p. sceneOf 0 (onLoad 0 offCentre (stateAfter [Init (demoProps 600 400)])) =
       sceneOf 0 (stateAfter [Init (demoProps 600 400)]) @ [Mesh offCentre m p] \<and>
       Min (vx ` set (translated p offCentre)) + Max (vx ` set (translated p offCentre)) = 0 \<and>
       Min (vy ` set (translated p offCentre)) + Max (vy ` set (translated p offCentre)) = 0 \<and>
       Min (vz ` set (translated p offCentre)) + Max (vz ` set (translated p offCentre)) = 0"
    by blast
  with p ne c sc t show ?thesis by blast
qed

text \<open>
  C6. The claim: after teardown every handle of the viewer is \<^verbatim>\<open>null\<close>, and a second
  teardown does not throw. The cleanup sets the renderer ref and the controls ref to
  \<^verbatim>\<open>null\<close> but not the frame ref, which it only cancels. After the demo page's viewer is
  mounted and torn down, the canvas is out of the container, no frame is pending, the two
  refs are \<^verbatim>\<open>null\<close>, and the frame ref still holds the handle of the cancelled frame; a
  second teardown does not throw.
\<close>

theorem teardown_keeps_frame_handle:
  "exec [Init (demoProps 600 400), Teardown] initialViewer \<noteq> None \<and>
   rendererRef (stateAfter [Init (demoProps 600 400), Teardown]) = None \<and>
   controlsRef (stateAfter [Init (demoProps 600 400), Teardown]) = None \<and>
   mountRef (stateAfter [Init (demoProps 600 400), Teardown]) = Some [] \<and>
   frames (stateAfter [Init (demoProps 600 400), Teardown]) = [] \<and>
   animationFrameRef (stateAfter [Init (demoProps 600 400), Teardown]) \<noteq> None \<and>
   animationFrameRef (stateAfter [Init (demoProps 600 400), Teardown]) = Some 1 \<and>
   (\<exists>s'. teardown 0 (stateAfter [Init (demoProps 600 400), Teardown]) = Inr s')"
proof -
  have again: "\<exists>s'. teardown 0 (stateAfter [Init (demoProps 600 400), Teardown]) = Inr s'"
    using teardown_effect by blast
  have refs: "exec [Init (demoProps 600 400), Teardown] initialViewer \<noteq> None"
    "rendererRef (stateAfter [Init (demoProps 600 400), Teardown]) = None"
    "controlsRef (stateAfter [Init (demoProps 600 400), Teardown]) = None"
    "mountRef (stateAfter [Init (demoProps 600 400), Teardown]) = Some []"
    "frames (stateAfter [Init (demoProps 600 400), Teardown]) = []"
    "animationFrameRef (stateAfter [Init (demoProps 600 400), Teardown]) = Some 1"
    by (simp_all add: model_defs)
  from refs(6) have "animationFrameRef (stateAfter [Init (demoProps 600 400), Teardown]) \<noteq> None"
    by simp
  with refs again show ?thesis by blast
qed

text \<open>
  C7, as amended. For every failed load: afterwards the error message is present, the
  loading indicator is cleared, no mesh is added (no scene has changed), the scene of the
  failed run holds no mesh, and the pending frames and the registered cleanup are what they
  were. When the failed run is the mounted one, its scene is exactly the three lights and
  its animation frame is pending: the render loop continues on the empty lit scene, and of
  mesh and error message exactly the error message is present.
\<close>

theorem failed_load_outcome:
  assumes "exec evs initialViewer = Some s" and "pendingLoad k s"
  shows "step (LoadError k err) s = Inr (onError k err s) \<and>
         error (onError k err s) = Some ''Failed to load the 3D model.'' \<and>
         loading (onError k err s) = False \<and>
         (\<forall>j. sceneOf j (onError k err s) = sceneOf j s) \<and>
         filter isMesh (sceneOf k (onError k err s)) = [] \<and>
         frames (onError k err s) = frames s \<and>
         cleanup (onError k err s) = cleanup s \<and>
         (cleanup s = Some k \<longrightarrow>
            sceneOf k (onError k err s) = lights \<and> (\<exists>h. frames (onError k err s) = [(h, k)]))"
proof -
  have w: "wf s" using assms(1) by (rule exec_initial_wf)
  from assms(2) obtain e where e: "envs s k = Some e" "loadPending e"
    by (auto simp: pendingLoad_def split: option.splits)
  from w e have nm: "filter isMesh (sceneOf k s) = []"
    by (auto simp: wf_def envsOk_def envOk_def sceneOf_def)
  have f: "frames (onError k err s) = frames s" "cleanup (onError k err s) = cleanup s"
    by (simp_all add: onError_def updateEnv_fields)
  have m: "sceneOf k s = lights \<and> (\<exists>h. frames s = [(h, k)])" if c: "cleanup s = Some k"
  proof -
    from w c have r: "running k s" by (auto simp: wf_def idle_def running_def)
    then obtain e' h where e': "envs s k = Some e'" "envLive e'" and h: "frames s = [(h, k)]"
      by (auto simp: running_def)
    from e e' have "sceneOf k s = lights" by (simp add: envLive_def sceneOf_def)
    with h show ?thesis by simp
  qed
  have a: "error (onError k err s) = Some ''Failed to load the 3D model.''"
    "loading (onError k err s) = False"
    by (simp_all add: onError_def)
  show ?thesis
    using a nm f m by (simp add: sceneOf_onError)
qed

text \<open>The theorem at the mounted demo page, whose request fails.\<close>

theorem failed_load_outcome_witness:
  "exec [Init (demoProps 600 400)] initialViewer \<noteq> None \<and>
   cleanup (stateAfter [Init (demoProps 600 400)]) = Some 0 \<and>
   pendingLoad 0 (stateAfter [Init (demoProps 600 400)]) \<and>
   error (onError 0 ''404'' (stateAfter [Init (demoProps 600 400)]))
     = Some ''Failed to load the 3D model.'' \<and>
   loading (onError 0 ''404'' (stateAfter [Init (demoProps 600 400)])) = False \<and>
   filter isMesh (sceneOf 0 (onError 0 ''404'' (stateAfter [Init (demoProps 600 400)]))) = [] \<and>
   sceneOf 0 (onError 0 ''404'' (stateAfter [Init (demoProps 600 400)])) = lights \<and>
   frames (onError 0 ''404'' (stateAfter [Init (demoProps 600 400)])) = [(1, 0)]"
proof -
  note x = demo_mounted(1) and c = demo_mounted(2)
  have p: "pendingLoad 0 (stateAfter [Init (demoProps 600 400)])"
    by (simp add: model_defs newEnv_def)
  have f: "frames (onError 0 ''404'' (stateAfter [Init (demoProps 600 400)])) = [(1, 0)]"
    by (simp add: model_defs newEnv_def)
  note t = failed_load_outcome[OF x p, of "''404''"]
  from t c have
    "error (onError 0 ''404'' (stateAfter [Init (demoProps 600 400)]))
       = Some ''Failed to load the 3D model.''"
    "loading (onError 0 ''404'' (stateAfter [Init (demoProps 600 400)])) = False"
    "filter isMesh (sceneOf 0 (onError 0 ''404'' (stateAfter [Init (demoProps 600 400)]))) = []"
    "sceneOf 0 (onError 0 ''404'' (stateAfter [Init (demoProps 600 400)])) = lights"
    by blast+
  with x c p f show ?thesis by simp
qed

text \<open>
  A failed load of a run that has been torn down, after a change of the url: the request of
  the first run fails after the request of the second, for another file, has succeeded.
  Afterwards the error message is present and the mounted scene holds the mesh, both at
  once; the scene of the failed run is empty, without its lights, and the only pending frame
  renders the other run.
\<close>

theorem failed_load_counterexample:
  "exec lateFailure initialViewer \<noteq> None \<and>
   map_option (\<lambda>e. url (props e)) (envs (stateAfter lateFailure) 0) = Some ''/models/dcenter.stl'' \<and>
   map_option (\<lambda>e. url (props e)) (envs (stateAfter lateFailure) 1) = Some ''/models/other.stl'' \<and>
   enabled (LoadError 0 ''404'') (stateAfter (urlChange @ [LoadSuccess 1 cube])) \<and>
   error (stateAfter lateFailure) = Some ''Failed to load the 3D model.'' \<and>
   cleanup (stateAfter lateFailure) = Some 1 \<and>
   filter isMesh (sceneOf 1 (stateAfter lateFailure)) = [newMesh ''#ffffff'' cube] \<and>
   sceneOf 0 (stateAfter lateFailure) = [] \<and>
   frames (stateAfter lateFailure) = [(2, 1)]"
  by (simp add: model_defs lateFailure_def urlChange_def demoProps_def newEnv_def newMesh_def
      lights_def)

text \<open>
  C8. In every state a trace leads to in which a run is mounted, a re-initialisation with
  any new props (the cleanup, then the effect) completes, and afterwards the container has
  exactly one canvas: the one of the renderer in the ref.
\<close>

theorem reinit_one_surface:
  assumes "exec evs initialViewer = Some s" and "cleanup s \<noteq> None"
  shows "\<exists>s' c. exec [Teardown, Init p] s = Some s' \<and> mountRef s' = Some [c] \<and>
           rendererRef s' = Some c \<and> cleanup s' = Some c"
proof -
  have w: "wf s" using assms(1) by (rule exec_initial_wf)
  from step_wf[OF w, of Teardown] assms(2) obtain s1 where
    1: "step Teardown s = Inr s1" "wf s1" by auto
  from 1(1) assms(2) have c1: "cleanup s1 = None"
    by (auto split: option.splits sum.splits)
  from step_wf[OF 1(2), of "Init p"] c1 obtain s2 where
    2: "step (Init p) s1 = Inr s2" "wf s2" by auto
  from 1(2) c1 have i: "idle s1" and o: "envsOk s1" by (auto simp: wf_def running_def)
  from init_idle[OF i o, of p] 2(1) have "running (nextEnv s1) s2" by simp
  then have "mountRef s2 = Some [nextEnv s1]" "rendererRef s2 = Some (nextEnv s1)"
    "cleanup s2 = Some (nextEnv s1)"
    by (simp_all add: running_def)
  moreover have "exec [Teardown, Init p] s = Some s2"
    using assms(2) 1(1) c1 2(1) by simp
  ultimately show ?thesis by blast
qed

text \<open>The theorem at the mounted demo page, when the window size arrives.\<close>

theorem reinit_one_surface_witness:
  "exec [Init (demoProps 600 400)] initialViewer \<noteq> None \<and>
   cleanup (stateAfter [Init (demoProps 600 400)]) = Some 0 \<and>
   mountRef (stateAfter [Init (demoProps 600 400)]) = Some [0] \<and>
   (\<exists>s' c. exec [Teardown, Init (demoProps 1280 720)] (stateAfter [Init (demoProps 600 400)])
        = Some s' \<and> mountRef s' = Some [c] \<and> rendererRef s' = Some c)"
proof -
  note x = demo_mounted(1) and c = demo_mounted(2,3)
  from c have n: "cleanup (stateAfter [Init (demoProps 600 400)]) \<noteq> None" by simp
  from reinit_one_surface[OF x n, of "demoProps 1280 720"] x c show ?thesis by auto
qed

text \<open>
  C9. The message the failure callback sets is the constant string
  \<^verbatim>\<open>Failed to load the 3D model.\<close>, whatever the error value: two failures with different
  error values leave the same message, and the same state but for the console.
\<close>

theorem error_message_constant:
  "error (onError k err s) = Some ''Failed to load the 3D model.'' \<and>
   error (onError k err s) = error (onError k err' s) \<and>
   (onError k err s)\<lparr>console := c\<rparr> = (onError k err' s)\<lparr>console := c\<rparr>"
  by (simp add: onError_def)

text \<open>
  C10. In every state a trace leads to in which React may run the effect (it holds no
  cleanup: at mount, or after the cleanup of the previous run), the renderer handle is
  \<^verbatim>\<open>null\<close>, so the removal of a prior canvas at the top of the effect is not taken, whatever the
  container holds, and the effect does not throw.
\<close>

theorem init_entry_renderer_null:
  assumes "exec evs initialViewer = Some s" and "enabled (Init p) s"
  shows "rendererRef s = None \<and> clearExisting ch s = Inr s \<and> (\<exists>s'. initialize p s = Inr s')"
proof -
  have w: "wf s" using assms(1) by (rule exec_initial_wf)
  with assms(2) have i: "idle s" and o: "envsOk s" by (auto simp: wf_def running_def)
  from i have r: "rendererRef s = None" by (simp add: idle_def)
  from init_idle[OF i o, of p] obtain s' where "initialize p s = Inr s'" by blast
  with r show ?thesis by (auto simp: clearExisting_def)
qed

text \<open>The theorem at the demo page, between the cleanup and the second run.\<close>

theorem init_entry_renderer_null_witness:
  "exec [Init (demoProps 600 400), Teardown] initialViewer \<noteq> None \<and>
   enabled (Init (demoProps 1280 720)) (stateAfter [Init (demoProps 600 400), Teardown]) \<and>
   rendererRef (stateAfter [Init (demoProps 600 400), Teardown]) = None \<and>
   (\<exists>s'. initialize (demoProps 1280 720) (stateAfter [Init (demoProps 600 400), Teardown])
      = Inr s')"
proof -
  have x: "exec [Init (demoProps 600 400), Teardown] initialViewer
            = Some (stateAfter [Init (demoProps 600 400), Teardown])"
    by (simp add: model_defs)
  have en: "enabled (Init (demoProps 1280 720)) (stateAfter [Init (demoProps 600 400), Teardown])"
    by (simp add: model_defs)
  from init_entry_renderer_null[OF x en] x en show ?thesis by simp
qed

end
